theory Spec2Isabelle
  imports Main
begin

section \<open>Go values used by the tracing package\<close>

text \<open>
  The package \<open>pkg/infra/tracing\<close> (file \<open>opentelemetry_tracing.go\<close>) adapts two span
  families to one \<open>Span\<close> interface. A Go call returns, panics, or never comes back
  (\<open>Blocks\<close>: a receive on a channel that is never closed); a Go \<open>error\<close> is a value,
  \<open>nil\<close> being \<open>None\<close>.
\<close>

datatype 'a outcome = Returns 'a | Panics | Blocks

datatype error = Error string

text \<open>\<open>attribute.KeyValue\<close>: a key (a string) with a typed value.\<close>

datatype attr_value = BOOL bool | INT64 int | STRING string

record KeyValue =
  Key :: string
  Value :: attr_value

text \<open>
  The \<open>interface{}\<close> argument of the legacy \<open>SetTag\<close>: the dynamic values that reach it
  here are a whole \<open>attribute.KeyValue\<close>, or (what a caller might expect) the typed value
  alone.
\<close>

datatype any = AnyKeyValue KeyValue | AnyValue attr_value

text \<open>\<open>fmt.Sprint\<close> of a non-negative \<open>int\<close>: its decimal digits.\<close>

definition digit :: "nat \<Rightarrow> char" where
  "digit d = ''0123456789'' ! d"

fun Sprint_int :: "nat \<Rightarrow> string" where
  "Sprint_int n = (if n < 10 then [digit n] else Sprint_int (n div 10) @ [digit (n mod 10)])"

declare Sprint_int.simps [simp del]

text \<open>\<open>time.Second\<close>, a \<open>time.Duration\<close>: a count of nanoseconds.\<close>

definition Second :: nat where
  "Second = 1000000000"

section \<open>External collaborators\<close>

text \<open>
  The tracing libraries, the ini reader and the exporter are not part of the package. Each
  is modelled at its interface, from what the specification says of it; the exporter's
  construction and the provider's shutdown, whose results depend on the environment, are
  parameters of the functions that call them.
\<close>

subsection \<open>Spans and execution contexts\<close>

text \<open>
  Modelled from the spec: the modern span of the OpenTelemetry library (section 3, "Span":
  a name, an identity, an optional parent). \<open>recording\<close> is false for the inert span of a
  disabled backend.
\<close>

record otel_span =
  span_name :: string
  span_id :: nat
  span_parent :: "nat option"
  recording :: bool

text \<open>
  Modelled from the spec: the legacy span of the OpenTracing library, as the object the
  adapter talks to. It keeps the operation name, its identity, its parent, the
  \<open>SetTag\<close> calls it received (in order) and the number of \<open>Finish\<close> calls it received.
\<close>

record ot_span =
  ot_operation :: string
  ot_id :: nat
  ot_parent :: "nat option"
  ot_tags :: "(string \<times> any) list"
  ot_finished :: nat

definition SetTag :: "ot_span \<Rightarrow> string \<Rightarrow> any \<Rightarrow> ot_span" where
  \<comment> \<open>Modelled from the spec: the legacy span's "set tag" operation (section 4.5); the span keeps the call.\<close>
  "SetTag sp k v = sp\<lparr>ot_tags := ot_tags sp @ [(k, v)]\<rparr>"

definition Finish :: "ot_span \<Rightarrow> ot_span" where
  \<comment> \<open>Modelled from the spec: the legacy span's "finish" operation (section 4.5); the span counts the call.\<close>
  "Finish sp = sp\<lparr>ot_finished := Suc (ot_finished sp)\<rparr>"

text \<open>
  Modelled from the spec: Go's \<open>context.Context\<close> (section 3, "Execution context": an
  immutable, copy-on-extend carrier). A context is the background context or extends a
  parent: with a cancel function, with a timeout (in nanoseconds), or with an active span of
  either family. The active span is the one attached last.
\<close>

datatype go_ctx =
    Background
  | WithCancel go_ctx
  | WithTimeout go_ctx nat
  | ContextWithSpan go_ctx otel_span
  | ot_ContextWithSpan go_ctx ot_span

fun SpanFromContext :: "go_ctx \<Rightarrow> otel_span option" where
  \<comment> \<open>Modelled from the spec: the active modern span of a context, if any (section 3).\<close>
  "SpanFromContext Background = None"
| "SpanFromContext (WithCancel c) = SpanFromContext c"
| "SpanFromContext (WithTimeout c d) = SpanFromContext c"
| "SpanFromContext (ContextWithSpan c s) = Some s"
| "SpanFromContext (ot_ContextWithSpan c s) = SpanFromContext c"

fun ot_SpanFromContext :: "go_ctx \<Rightarrow> ot_span option" where
  \<comment> \<open>Modelled from the spec: the active legacy span of a context, if any (section 3).\<close>
  "ot_SpanFromContext Background = None"
| "ot_SpanFromContext (WithCancel c) = ot_SpanFromContext c"
| "ot_SpanFromContext (WithTimeout c d) = ot_SpanFromContext c"
| "ot_SpanFromContext (ContextWithSpan c s) = ot_SpanFromContext c"
| "ot_SpanFromContext (ot_ContextWithSpan c s) = Some s"

subsection \<open>The ini configuration\<close>

text \<open>
  Modelled from the spec: the configuration file read by the ini library (section 6:
  sections holding keys). \<open>GetSection\<close> fails when the section does not exist; \<open>Key\<close>
  of a missing key is the empty value; \<open>MustBool\<close> never fails, it falls back to the
  default when the value is not one of the library's boolean spellings.
\<close>

type_synonym Section = "string \<rightharpoonup> string"

type_synonym File = "string \<rightharpoonup> Section"

record Cfg =
  Raw :: File

definition GetSection :: "File \<Rightarrow> string \<Rightarrow> error + Section" where
  \<comment> \<open>Modelled from the spec: the ini library's section lookup; it fails when the section is absent (section 4.3, step 1).\<close>
  "GetSection f name =
     (case f name of
        None \<Rightarrow> Inl (Error (''section '' @ name @ '' does not exist''))
      | Some sec \<Rightarrow> Inr sec)"

definition Section_Key :: "Section \<Rightarrow> string \<Rightarrow> string" where
  \<comment> \<open>Modelled from the spec: the ini library's key lookup; a missing key has the empty value.\<close>
  "Section_Key sec name = (case sec name of None \<Rightarrow> [] | Some v \<Rightarrow> v)"

definition parseBool :: "string \<Rightarrow> bool option" where
  \<comment> \<open>Modelled from the spec: the ini library's reading of a boolean (section 6), with the spellings the library accepts.\<close>
  "parseBool v =
     (if v \<in> set [''1'', ''t'', ''T'', ''true'', ''TRUE'', ''True'', ''YES'', ''yes'', ''Yes'',
                   ''y'', ''ON'', ''on'', ''On''] then Some True
      else if v \<in> set [''0'', ''f'', ''F'', ''false'', ''FALSE'', ''False'', ''NO'', ''no'', ''No'',
                   ''n'', ''OFF'', ''off'', ''Off''] then Some False
      else None)"

definition MustBool :: "string \<Rightarrow> bool \<Rightarrow> bool" where
  \<comment> \<open>Modelled from the spec: the ini library's boolean with a default (section 6: "bool, default false"); it never fails.\<close>
  "MustBool v dflt = (case parseBool v of Some b \<Rightarrow> b | None \<Rightarrow> dflt)"

subsection \<open>Exporter and tracer provider\<close>

text \<open>
  Modelled from the spec: the Jaeger exporter's options and the SDK's tracer provider
  (section 4.3, steps 2 and 3: an exporter bound to an endpoint, wrapped in a batching
  pipeline tagged with process-identity metadata). An exporter is known by the options it
  was built from; a provider by the options it was created with. Whether building the
  exporter succeeds is the library's answer \<open>jaeger_New\<close>, a parameter below.
\<close>

datatype CollectorEndpointOption = WithEndpoint string

datatype EndpointOption = WithCollectorEndpoint "CollectorEndpointOption list"

datatype Exporter = JaegerExporter EndpointOption

datatype Resource = NewWithAttributes string "KeyValue list"

datatype TracerProviderOption = WithBatcher Exporter | WithResource Resource

datatype TracerProvider = NewTracerProvider "TracerProviderOption list"

definition SchemaURL :: string where
  \<comment> \<open>Modelled from the spec: a constant of the semantic-conventions library (section 4.3, step 3).\<close>
  "SchemaURL = ''https://opentelemetry.io/schemas/1.4.0''"

definition ServiceNameKey_String :: "string \<Rightarrow> KeyValue" where
  \<comment> \<open>Modelled from the spec: the service-name attribute of the semantic-conventions library (section 4.3, step 3).\<close>
  "ServiceNameKey_String v = \<lparr>Key = ''service.name'', Value = STRING v\<rparr>"

definition attribute_String :: "string \<Rightarrow> string \<Rightarrow> KeyValue" where
  \<comment> \<open>Modelled from the spec: the attribute library's string-valued pair.\<close>
  "attribute_String k v = \<lparr>Key = k, Value = STRING v\<rparr>"

subsection \<open>The OpenTelemetry global provider and its tracers\<close>

text \<open>
  Modelled from the spec: the library's process-wide tracer provider (section 4.3, step 4).
  Until a provider is installed it is the library's default, whose spans are all inert;
  \<open>SetTracerProvider\<close> installs one, \<open>GetTracerProvider\<close> reads the current one, and a
  tracer remembers the provider it was obtained from.
\<close>

datatype otel_provider = DefaultProvider | SdkProvider TracerProvider

datatype otel_tracer = Tracer otel_provider string

definition provider_Tracer :: "otel_provider \<Rightarrow> string \<Rightarrow> otel_tracer" where
  \<comment> \<open>Modelled from the spec: a provider's named tracer (section 3, "Global Tracer reference").\<close>
  "provider_Tracer p name = Tracer p name"

text \<open>
  Modelled from the spec: the state of the SDK's pipeline (section 2, "Exporter" and
  "TracerProvider"): the next span identity, the finished spans handed to the batcher for
  export, and the attributes recorded so far (by span identity).
\<close>

record sdk_state =
  next_id :: nat
  ended :: "otel_span list"
  attributes :: "(nat \<times> KeyValue) list"

datatype SpanStartOption = WithNewRoot | WithAttributes "KeyValue list"

text \<open>
  Modelled from the spec: \<open>Start\<close> of a library tracer (section 4.1). A tracer of an SDK
  provider creates a recording span with a fresh identity, a child of the context's active
  span unless the option \<open>WithNewRoot\<close> asks for a root; a tracer of the default provider
  returns an inert span, which records nothing (not its name, no parent) and, as the
  library's does, carries the identity found in the context, \<open>0\<close> when there is none.
  Either way the returned context carries the returned span.
\<close>

definition nonRecordingSpan :: "go_ctx \<Rightarrow> otel_span" where
  \<comment> \<open>Modelled from the spec: the inert span handed out while no provider is installed (glossary, "No-op span").\<close>
  "nonRecordingSpan ctx =
     \<lparr>span_name = [],
      span_id = (case SpanFromContext ctx of None \<Rightarrow> 0 | Some p \<Rightarrow> span_id p),
      span_parent = None, recording = False\<rparr>"

fun tracer_Start ::
  "otel_tracer \<Rightarrow> sdk_state \<Rightarrow> go_ctx \<Rightarrow> string \<Rightarrow> SpanStartOption list
     \<Rightarrow> (go_ctx \<times> otel_span) \<times> sdk_state" where
  \<comment> \<open>Modelled from the spec: the library tracer's \<open>Start\<close> (section 4.1).\<close>
  "tracer_Start (Tracer DefaultProvider nm) w ctx name opts =
     (let s = nonRecordingSpan ctx in ((ContextWithSpan ctx s, s), w))"
| "tracer_Start (Tracer (SdkProvider tp) nm) w ctx name opts =
     (let s = \<lparr>span_name = name, span_id = next_id w,
               span_parent = (if WithNewRoot \<in> set opts then None
                              else map_option span_id (SpanFromContext ctx)),
               recording = True\<rparr>
      in ((ContextWithSpan ctx s, s), w\<lparr>next_id := Suc (next_id w)\<rparr>))"

text \<open>
  Modelled from the spec: \<open>End\<close> and \<open>SetAttributes\<close> of a library span (section 4.2). A
  recording span is handed to the pipeline when it ends, and its attributes are recorded;
  an inert span has no observable effect.
\<close>

definition span_End :: "otel_span \<Rightarrow> sdk_state \<Rightarrow> sdk_state" where
  \<comment> \<open>Modelled from the spec: the library span's \<open>End\<close> (section 4.2).\<close>
  "span_End sp w = (if recording sp then w\<lparr>ended := ended w @ [sp]\<rparr> else w)"

definition span_SetAttributes :: "otel_span \<Rightarrow> KeyValue list \<Rightarrow> sdk_state \<Rightarrow> sdk_state" where
  \<comment> \<open>Modelled from the spec: the library span's \<open>SetAttributes\<close> (section 4.2).\<close>
  "span_SetAttributes sp kv w =
     (if recording sp then w\<lparr>attributes := attributes w @ map (\<lambda>a. (span_id sp, a)) kv\<rparr>
      else w)"

subsection \<open>The OpenTracing global tracer\<close>

text \<open>
  Modelled from the spec: the legacy library's span-from-context mechanism (section 4.5).
  The library's global tracer is either a registered, recording tracer or its default,
  whose spans are inert. A recording tracer starts a span with a fresh identity, a child of
  the context's active legacy span if there is one; the returned context carries the
  returned span.
\<close>

record ot_state =
  ot_registered :: bool
  ot_next_id :: nat

definition StartSpanFromContext ::
  "ot_state \<Rightarrow> go_ctx \<Rightarrow> string \<Rightarrow> (ot_span \<times> go_ctx) \<times> ot_state" where
  \<comment> \<open>Modelled from the spec: the legacy tracer's span-from-context mechanism (section 4.5).\<close>
  "StartSpanFromContext w ctx name =
     (if ot_registered w then
        (let s = \<lparr>ot_operation = name, ot_id = ot_next_id w,
                  ot_parent = map_option ot_id (ot_SpanFromContext ctx),
                  ot_tags = [], ot_finished = 0\<rparr>
         in ((s, ot_ContextWithSpan ctx s), w\<lparr>ot_next_id := Suc (ot_next_id w)\<rparr>))
      else
        (let s = \<lparr>ot_operation = [], ot_id = 0, ot_parent = None,
                  ot_tags = [], ot_finished = 0\<rparr>
         in ((s, ot_ContextWithSpan ctx s), w)))"

section \<open>The package\<close>

subsection \<open>Types and the global tracer\<close>

text \<open>
  \<^verbatim>\<open>
  var ( GlobalTracer trace.Tracer )

  type OpentelemetryTracingService struct {
      enabled bool
      address string
      log     log.Logger
      tracerProvider *tracesdk.TracerProvider
      Cfg *setting.Cfg
  }
  type OpentelemetrySpan struct { span trace.Span }
  type OpentracingSpan struct { span opentracing.Span }
  \<close>
  The package variable \<open>GlobalTracer\<close> is an interface value, \<open>nil\<close> until assigned; it is
  kept with the library's global provider in the process state \<open>globals\<close>. The pointer
  \<open>tracerProvider\<close> may be \<open>nil\<close>. The logger is left out (its one use is an event of
  \<open>Run\<close>); the logger and the configuration are taken to be set.
\<close>

record globals =
  GlobalTracer :: "otel_tracer option"
  otel_global :: otel_provider

definition package_init :: globals where
  "package_init = \<lparr>GlobalTracer = None, otel_global = DefaultProvider\<rparr>"

definition SetTracerProvider :: "TracerProvider \<Rightarrow> globals \<Rightarrow> globals" where
  \<comment> \<open>Modelled from the spec: the library call installing a provider as the process-wide one (section 4.3, step 4).\<close>
  "SetTracerProvider tp g = g\<lparr>otel_global := SdkProvider tp\<rparr>"

definition GetTracerProvider :: "globals \<Rightarrow> otel_provider" where
  \<comment> \<open>Modelled from the spec: the library call reading the process-wide provider (section 4.3, step 4).\<close>
  "GetTracerProvider g = otel_global g"

record OpentelemetryTracingService =
  enabled :: bool
  address :: string
  tracerProvider :: "TracerProvider option"
  Cfg :: Cfg

datatype Span = OpentelemetrySpan otel_span | OpentracingSpan ot_span

subsection \<open>Reading the settings\<close>

text \<open>
  \<^verbatim>\<open>
  func (ts *OpentelemetryTracingService) parseSettingsOpentelemetry() error {
      section, err := ts.Cfg.Raw.GetSection("tracing.opentelemetry.jaeger")
      if err != nil {
          return err
      }
      ts.enabled = section.Key("enabled").MustBool(false)
      return nil
  }
  \<close>
  The method returns its error and the service as it leaves it.
\<close>

definition parseSettingsOpentelemetry ::
  "OpentelemetryTracingService \<Rightarrow> error option \<times> OpentelemetryTracingService" where
  "parseSettingsOpentelemetry ts =
     (case GetSection (Raw (Cfg ts)) ''tracing.opentelemetry.jaeger'' of
        Inl err \<Rightarrow> (Some err, ts)
      | Inr section \<Rightarrow> (None, ts\<lparr>enabled := MustBool (Section_Key section ''enabled'') False\<rparr>))"

subsection \<open>Building the provider and installing the tracer\<close>

text \<open>
  \<^verbatim>\<open>
  func (ts *OpentelemetryTracingService) initTracerProvider() (*tracesdk.TracerProvider, error) {
      exp, err := jaeger.New(jaeger.WithCollectorEndpoint(jaeger.WithEndpoint(ts.address)))
      if err != nil {
          return nil, err
      }
      tp := tracesdk.NewTracerProvider(
          tracesdk.WithBatcher(exp),
          tracesdk.WithResource(resource.NewWithAttributes(
              semconv.SchemaURL,
              semconv.ServiceNameKey.String("grafana"),
              attribute.String("environment", "production"),
          )),
      )
      return tp, nil
  }
  \<close>
\<close>

definition initTracerProvider ::
  "(EndpointOption \<Rightarrow> error + Exporter) \<Rightarrow> OpentelemetryTracingService
     \<Rightarrow> error + TracerProvider" where
  "initTracerProvider jaeger_New ts =
     (case jaeger_New (WithCollectorEndpoint [WithEndpoint (address ts)]) of
        Inl err \<Rightarrow> Inl err
      | Inr exp \<Rightarrow>
          Inr (NewTracerProvider
                 [WithBatcher exp,
                  WithResource (NewWithAttributes SchemaURL
                    [ServiceNameKey_String ''grafana'',
                     attribute_String ''environment'' ''production''])]))"

text \<open>
  \<^verbatim>\<open>
  func (ots *OpentelemetryTracingService) initOpentelemetryTracer() error {
      tp, err := ots.initTracerProvider()
      if err != nil {
          return err
      }
      if ots.enabled {
          otel.SetTracerProvider(tp)
      }
      GlobalTracer = otel.GetTracerProvider().Tracer("component-main")
      return nil
  }
  \<close>
  The method writes the process state only: no field of the service is assigned.
\<close>

definition initOpentelemetryTracer ::
  "(EndpointOption \<Rightarrow> error + Exporter) \<Rightarrow> OpentelemetryTracingService \<Rightarrow> globals
     \<Rightarrow> error option \<times> globals" where
  "initOpentelemetryTracer jaeger_New ots g =
     (case initTracerProvider jaeger_New ots of
        Inl err \<Rightarrow> (Some err, g)
      | Inr tp \<Rightarrow>
          (let g1 = (if enabled ots then SetTracerProvider tp g else g)
           in (None, g1\<lparr>GlobalTracer :=
                           Some (provider_Tracer (GetTracerProvider g1) ''component-main'')\<rparr>)))"

subsection \<open>Run\<close>

text \<open>
  \<^verbatim>\<open>
  func (ots *OpentelemetryTracingService) Run(ctx context.Context) error {
      <-ctx.Done()
      ots.log.Info("Closing tracing")
      ctxShutdown, cancel := context.WithTimeout(context.Background(), time.Second*5)
      defer cancel()
      if err := ots.tracerProvider.Shutdown(ctxShutdown); err != nil {
          return err
      }
      return nil
  }
  \<close>
  Two answers come from the environment: \<open>done ctx\<close>, whether the context is ever
  cancelled (so that the receive on \<open>ctx.Done()\<close> completes), and \<open>Shutdown p c\<close>, what
  the provider's shutdown does when called on the pointer \<open>p\<close> with the context \<open>c\<close>.
  \<open>Run\<close> yields its outcome and the calls it made, in order. The deferred \<open>cancel\<close> runs
  when \<open>Run\<close> returns or panics.
\<close>

datatype event =
    Log_Info string
  | Call_Shutdown "TracerProvider option" go_ctx
  | Call_cancel go_ctx

definition Run ::
  "(go_ctx \<Rightarrow> bool) \<Rightarrow> (TracerProvider option \<Rightarrow> go_ctx \<Rightarrow> error option outcome)
     \<Rightarrow> OpentelemetryTracingService \<Rightarrow> go_ctx \<Rightarrow> error option outcome \<times> event list" where
  "Run done Shutdown ots ctx =
     (if \<not> done ctx then (Blocks, [])
      else
        (let ctxShutdown = WithTimeout Background (Second * 5);
             called = [Log_Info ''Closing tracing'',
                       Call_Shutdown (tracerProvider ots) ctxShutdown]
         in case Shutdown (tracerProvider ots) ctxShutdown of
              Returns (Some err) \<Rightarrow> (Returns (Some err), called @ [Call_cancel ctxShutdown])
            | Returns None \<Rightarrow> (Returns None, called @ [Call_cancel ctxShutdown])
            | Panics \<Rightarrow> (Panics, called @ [Call_cancel ctxShutdown])
            | Blocks \<Rightarrow> (Blocks, called)))"

fun shutdown_calls :: "event list \<Rightarrow> (TracerProvider option \<times> go_ctx) list" where
  "shutdown_calls [] = []"
| "shutdown_calls (Call_Shutdown p c # es) = (p, c) # shutdown_calls es"
| "shutdown_calls (e # es) = shutdown_calls es"

subsection \<open>Start and the modern span\<close>

text \<open>
  \<^verbatim>\<open>
  func (ts *OpentelemetryTracingService) Start(ctx context.Context, spanName string,
          opts ...trace.SpanStartOption) (context.Context, Span) {
      ctx, span := GlobalTracer.Start(ctx, spanName)
      oSpan := OpentelemetrySpan{span: span}
      return ctx, oSpan
  }
  func (s OpentelemetrySpan) End() { s.span.End() }
  func (s OpentelemetrySpan) SetAttributes(kv ...attribute.KeyValue) {
      s.span.SetAttributes(kv...)
  }
  \<close>
  A method call on the \<open>nil\<close> interface value panics. The library tracer is called with
  the context and the name only, that is with no option.
\<close>

definition Start ::
  "globals \<Rightarrow> OpentelemetryTracingService \<Rightarrow> sdk_state \<Rightarrow> go_ctx \<Rightarrow> string
     \<Rightarrow> SpanStartOption list \<Rightarrow> ((go_ctx \<times> Span) \<times> sdk_state) outcome" where
  "Start g ts w ctx spanName opts =
     (case GlobalTracer g of
        None \<Rightarrow> Panics
      | Some t \<Rightarrow>
          (case tracer_Start t w ctx spanName [] of
             ((ctx', span), w') \<Rightarrow> Returns ((ctx', OpentelemetrySpan span), w')))"

definition OpentelemetrySpan_End :: "otel_span \<Rightarrow> sdk_state \<Rightarrow> sdk_state" where
  "OpentelemetrySpan_End sp w = span_End sp w"

definition OpentelemetrySpan_SetAttributes ::
  "otel_span \<Rightarrow> KeyValue list \<Rightarrow> sdk_state \<Rightarrow> sdk_state" where
  "OpentelemetrySpan_SetAttributes sp kv w = span_SetAttributes sp kv w"

subsection \<open>The legacy adapter\<close>

text \<open>
  \<^verbatim>\<open>
  func (ts *TracingService) Start(ctx context.Context, spanName string,
          opts ...trace.SpanStartOption) (context.Context, Span) {
      span, ctx := opentracing.StartSpanFromContext(ctx, spanName)
      oSpan := OpentracingSpan{ span: span }
      return ctx, oSpan
  }
  func (s OpentracingSpan) End() { s.span.Finish() }
  func (s OpentracingSpan) SetAttributes(kv ...attribute.KeyValue) {
      for k, v := range kv {
          s.span.SetTag(fmt.Sprint(k), v)
      }
  }
  \<close>
  The receiver of the legacy \<open>Start\<close> is not read. \<open>range\<close> over a slice yields the index
  \<open>k\<close> (an \<open>int\<close>) and the element \<open>v\<close>, here the whole \<open>attribute.KeyValue\<close>;
  \<open>SetAttributes_range k\<close> is the loop over the pairs from index \<open>k\<close> on, the wrapped span
  passed along.
\<close>

definition TracingService_Start ::
  "ot_state \<Rightarrow> go_ctx \<Rightarrow> string \<Rightarrow> SpanStartOption list \<Rightarrow> ((go_ctx \<times> Span) \<times> ot_state) outcome" where
  "TracingService_Start w ctx spanName opts =
     (case StartSpanFromContext w ctx spanName of
        ((span, ctx'), w') \<Rightarrow> Returns ((ctx', OpentracingSpan span), w'))"

definition OpentracingSpan_End :: "ot_span \<Rightarrow> ot_span" where
  "OpentracingSpan_End sp = Finish sp"

fun SetAttributes_range :: "nat \<Rightarrow> KeyValue list \<Rightarrow> ot_span \<Rightarrow> ot_span" where
  "SetAttributes_range k [] sp = sp"
| "SetAttributes_range k (v # kv) sp =
     SetAttributes_range (Suc k) kv (SetTag sp (Sprint_int k) (AnyKeyValue v))"

definition OpentracingSpan_SetAttributes :: "ot_span \<Rightarrow> KeyValue list \<Rightarrow> ot_span" where
  "OpentracingSpan_SetAttributes sp kv = SetAttributes_range 0 kv sp"

text \<open>
  What the specification asks of the legacy \<open>SetAttributes\<close> (sections 4.2 and 4.5): one
  tag per pair, keyed by the pair's key, holding the pair's value.
\<close>

definition expected_tags :: "KeyValue list \<Rightarrow> (string \<times> any) list" where
  "expected_tags kv = map (\<lambda>p. (Key p, AnyValue (Value p))) kv"

section \<open>The legacy SetAttributes\<close>

lemma SetAttributes_range_tags:
  "ot_tags (SetAttributes_range k kv sp) =
     ot_tags sp @ map (\<lambda>(i, v). (Sprint_int i, AnyKeyValue v)) (enumerate k kv)"
  by (induction kv arbitrary: k sp) (simp_all add: SetTag_def)

lemma OpentracingSpan_SetAttributes_count:
  "length (ot_tags (OpentracingSpan_SetAttributes sp kv)) = length (ot_tags sp) + length kv"
  by (simp add: OpentracingSpan_SetAttributes_def SetAttributes_range_tags)

text \<open>
  C1. The legacy \<open>SetAttributes\<close> should hand the span one tag per pair, keyed by the
  pair's attribute key and holding the pair's value. On the single pair
  \<open>a = "x"\<close> the span receives one tag, but its key is \<open>"0"\<close> (the slice index) and its
  value is the whole pair: not the tag \<open>("a", "x")\<close> the specification describes.
\<close>

theorem OpentracingSpan_SetAttributes_index_key:
  "ot_tags (OpentracingSpan_SetAttributes
       \<lparr>ot_operation = ''op'', ot_id = 1, ot_parent = None, ot_tags = [], ot_finished = 0\<rparr>
       [\<lparr>Key = ''a'', Value = STRING ''x''\<rparr>])
     = [(''0'', AnyKeyValue \<lparr>Key = ''a'', Value = STRING ''x''\<rparr>)]
   \<and> expected_tags [\<lparr>Key = ''a'', Value = STRING ''x''\<rparr>] = [(''a'', AnyValue (STRING ''x''))]
   \<and> ot_tags (OpentracingSpan_SetAttributes
       \<lparr>ot_operation = ''op'', ot_id = 1, ot_parent = None, ot_tags = [], ot_finished = 0\<rparr>
       [\<lparr>Key = ''a'', Value = STRING ''x''\<rparr>])
     \<noteq> expected_tags [\<lparr>Key = ''a'', Value = STRING ''x''\<rparr>]"
  by (simp add: OpentracingSpan_SetAttributes_def SetTag_def expected_tags_def
      Sprint_int.simps digit_def)

section \<open>Reading the settings\<close>

lemma parseSettingsOpentelemetry_address:
  "address (snd (parseSettingsOpentelemetry ts)) = address ts"
  by (simp add: parseSettingsOpentelemetry_def split: sum.splits)

text \<open>
  C2, as stated, fails. The section below is present; its \<open>enabled\<close> value \<open>maybe\<close> is not
  a boolean and it names a collector endpoint. Parsing returns no error, \<open>enabled\<close> is the
  default \<open>false\<close>, and \<open>address\<close> is still empty: a malformed section does not abort, and
  the endpoint is not read.
\<close>

theorem parseSettingsOpentelemetry_malformed_no_error:
  "parseBool ''maybe'' = None
   \<and> parseSettingsOpentelemetry
      \<lparr>enabled = False, address = [], tracerProvider = None,
       Cfg = \<lparr>Raw = [''tracing.opentelemetry.jaeger'' \<mapsto>
                [''enabled'' \<mapsto> ''maybe'', ''address'' \<mapsto> ''http://collector:14268'']]\<rparr>\<rparr>
   = (None,
      \<lparr>enabled = False, address = [], tracerProvider = None,
       Cfg = \<lparr>Raw = [''tracing.opentelemetry.jaeger'' \<mapsto>
                [''enabled'' \<mapsto> ''maybe'', ''address'' \<mapsto> ''http://collector:14268'']]\<rparr>\<rparr>)"
  by (simp add: parseSettingsOpentelemetry_def GetSection_def MustBool_def parseBool_def
      Section_Key_def)

text \<open>
  C2, amended. \<open>parseSettingsOpentelemetry\<close> returns an error exactly when the section
  \<open>tracing.opentelemetry.jaeger\<close> is absent; when the section is present, the service's
  \<open>enabled\<close> field is the section's \<open>enabled\<close> value read as a boolean, \<open>false\<close> when the
  key is missing or its value is not a boolean.
\<close>

theorem parseSettingsOpentelemetry_enabled:
  "(fst (parseSettingsOpentelemetry ts) \<noteq> None
      \<longleftrightarrow> Raw (Cfg ts) ''tracing.opentelemetry.jaeger'' = None)
   \<and> (\<forall>sec. Raw (Cfg ts) ''tracing.opentelemetry.jaeger'' = Some sec \<longrightarrow>
          enabled (snd (parseSettingsOpentelemetry ts)) =
            (case parseBool (Section_Key sec ''enabled'') of Some b \<Rightarrow> b | None \<Rightarrow> False))"
  by (auto simp add: parseSettingsOpentelemetry_def GetSection_def MustBool_def
      split: option.splits)

theorem parseSettingsOpentelemetry_enabled_witness:
  "fst (parseSettingsOpentelemetry
      \<lparr>enabled = False, address = [], tracerProvider = None,
       Cfg = \<lparr>Raw = [''tracing.opentelemetry.jaeger'' \<mapsto> [''enabled'' \<mapsto> ''true'']]\<rparr>\<rparr>) = None
   \<and> enabled (snd (parseSettingsOpentelemetry
      \<lparr>enabled = False, address = [], tracerProvider = None,
       Cfg = \<lparr>Raw = [''tracing.opentelemetry.jaeger'' \<mapsto> [''enabled'' \<mapsto> ''true'']]\<rparr>\<rparr>)) = True"
  using parseSettingsOpentelemetry_enabled
    [of "\<lparr>enabled = False, address = [], tracerProvider = None,
       Cfg = \<lparr>Raw = [''tracing.opentelemetry.jaeger'' \<mapsto> [''enabled'' \<mapsto> ''true'']]\<rparr>\<rparr>"]
  by (simp add: parseBool_def Section_Key_def)

section \<open>Building the provider\<close>

text \<open>
  C7. \<open>initTracerProvider\<close> asks the library for an exporter bound to the service's
  \<open>address\<close>; it returns an error exactly when that construction fails (the same error),
  and on success the provider it returns has that exporter, and no other, behind a batcher.
\<close>

theorem initTracerProvider_exporter:
  "((\<exists>err. initTracerProvider jaeger_New ts = Inl err)
      \<longleftrightarrow> (\<exists>err. jaeger_New (WithCollectorEndpoint [WithEndpoint (address ts)]) = Inl err))
   \<and> (\<forall>err. jaeger_New (WithCollectorEndpoint [WithEndpoint (address ts)]) = Inl err \<longrightarrow>
          initTracerProvider jaeger_New ts = Inl err)
   \<and> (\<forall>exp. jaeger_New (WithCollectorEndpoint [WithEndpoint (address ts)]) = Inr exp \<longrightarrow>
          (\<exists>opts. initTracerProvider jaeger_New ts = Inr (NewTracerProvider opts)
             \<and> [e. WithBatcher e \<leftarrow> opts] = [exp]))"
  by (auto simp add: initTracerProvider_def split: sum.splits)

theorem initTracerProvider_exporter_witness:
  "(\<exists>opts. initTracerProvider (\<lambda>opt. Inr (JaegerExporter opt))
        \<lparr>enabled = True, address = ''http://collector:14268'', tracerProvider = None,
         Cfg = \<lparr>Raw = Map.empty\<rparr>\<rparr> = Inr (NewTracerProvider opts)
      \<and> [e. WithBatcher e \<leftarrow> opts] =
          [JaegerExporter (WithCollectorEndpoint [WithEndpoint ''http://collector:14268''])])
   \<and> initTracerProvider (\<lambda>opt. Inl (Error ''no exporter''))
        \<lparr>enabled = True, address = ''http://collector:14268'', tracerProvider = None,
         Cfg = \<lparr>Raw = Map.empty\<rparr>\<rparr> = Inl (Error ''no exporter'')"
  using initTracerProvider_exporter
      [of "\<lambda>opt. Inr (JaegerExporter opt)"
          "\<lparr>enabled = True, address = ''http://collector:14268'', tracerProvider = None,
            Cfg = \<lparr>Raw = Map.empty\<rparr>\<rparr>"]
    initTracerProvider_exporter
      [of "\<lambda>opt. Inl (Error ''no exporter'')"
          "\<lparr>enabled = True, address = ''http://collector:14268'', tracerProvider = None,
            Cfg = \<lparr>Raw = Map.empty\<rparr>\<rparr>"]
  by simp

section \<open>Installing the global tracer\<close>

lemma Start_default_tracer:
  "GlobalTracer g = Some (Tracer DefaultProvider nm) \<Longrightarrow>
   Start g ts w ctx name opts =
     Returns ((ContextWithSpan ctx (nonRecordingSpan ctx),
               OpentelemetrySpan (nonRecordingSpan ctx)), w)"
  by (simp add: Start_def Let_def)

lemma nonRecordingSpan_inert:
  "\<not> recording (nonRecordingSpan ctx)"
  "OpentelemetrySpan_End (nonRecordingSpan ctx) w = w"
  "OpentelemetrySpan_SetAttributes (nonRecordingSpan ctx) kv w = w"
  by (simp_all add: nonRecordingSpan_def OpentelemetrySpan_End_def span_End_def
      OpentelemetrySpan_SetAttributes_def span_SetAttributes_def)

lemma initOpentelemetryTracer_success:
  "initOpentelemetryTracer jaeger_New ots g = (None, g') \<Longrightarrow>
   \<exists>tp. initTracerProvider jaeger_New ots = Inr tp
      \<and> GlobalTracer g' =
          Some (Tracer (if enabled ots then SdkProvider tp else otel_global g) ''component-main'')"
  by (auto simp add: initOpentelemetryTracer_def SetTracerProvider_def GetTracerProvider_def
      provider_Tracer_def Let_def split: sum.splits)

text \<open>
  C3, as stated, fails in its second half. \<open>initOpentelemetryTracer\<close> with \<open>enabled\<close> false
  takes the tracer from whatever provider is current in the library. Below, a first
  initialisation with \<open>enabled\<close> true has installed its provider; a second one with
  \<open>enabled\<close> false succeeds and leaves the global tracer on that provider. \<open>Start\<close> then
  returns a recording span, and \<open>End\<close> hands it to the pipeline for export.
\<close>

theorem initOpentelemetryTracer_disabled_counterexample:
  "initOpentelemetryTracer (\<lambda>opt. Inr (JaegerExporter opt))
      \<lparr>enabled = False, address = [], tracerProvider = None, Cfg = \<lparr>Raw = Map.empty\<rparr>\<rparr>
      (snd (initOpentelemetryTracer (\<lambda>opt. Inr (JaegerExporter opt))
         \<lparr>enabled = True, address = ''http://collector:14268'', tracerProvider = None,
          Cfg = \<lparr>Raw = Map.empty\<rparr>\<rparr> package_init))
     = (None,
        snd (initOpentelemetryTracer (\<lambda>opt. Inr (JaegerExporter opt))
         \<lparr>enabled = True, address = ''http://collector:14268'', tracerProvider = None,
          Cfg = \<lparr>Raw = Map.empty\<rparr>\<rparr> package_init))
   \<and> GlobalTracer (snd (initOpentelemetryTracer (\<lambda>opt. Inr (JaegerExporter opt))
         \<lparr>enabled = True, address = ''http://collector:14268'', tracerProvider = None,
          Cfg = \<lparr>Raw = Map.empty\<rparr>\<rparr> package_init))
     = Some (Tracer (SdkProvider (NewTracerProvider
         [WithBatcher (JaegerExporter
            (WithCollectorEndpoint [WithEndpoint ''http://collector:14268''])),
          WithResource (NewWithAttributes ''https://opentelemetry.io/schemas/1.4.0''
            [\<lparr>Key = ''service.name'', Value = STRING ''grafana''\<rparr>,
             \<lparr>Key = ''environment'', Value = STRING ''production''\<rparr>])]))
         ''component-main'')
   \<and> Start (snd (initOpentelemetryTracer (\<lambda>opt. Inr (JaegerExporter opt))
         \<lparr>enabled = True, address = ''http://collector:14268'', tracerProvider = None,
          Cfg = \<lparr>Raw = Map.empty\<rparr>\<rparr> package_init))
        \<lparr>enabled = False, address = [], tracerProvider = None, Cfg = \<lparr>Raw = Map.empty\<rparr>\<rparr>
        \<lparr>next_id = 1, ended = [], attributes = []\<rparr> Background ''op'' []
     = Returns
        ((ContextWithSpan Background
            \<lparr>span_name = ''op'', span_id = 1, span_parent = None, recording = True\<rparr>,
          OpentelemetrySpan
            \<lparr>span_name = ''op'', span_id = 1, span_parent = None, recording = True\<rparr>),
         \<lparr>next_id = 2, ended = [], attributes = []\<rparr>)
   \<and> OpentelemetrySpan_End
        \<lparr>span_name = ''op'', span_id = 1, span_parent = None, recording = True\<rparr>
        \<lparr>next_id = 2, ended = [], attributes = []\<rparr>
     = \<lparr>next_id = 2,
        ended = [\<lparr>span_name = ''op'', span_id = 1, span_parent = None, recording = True\<rparr>],
        attributes = []\<rparr>"
  by (simp add: initOpentelemetryTracer_def initTracerProvider_def GetTracerProvider_def
      SetTracerProvider_def provider_Tracer_def package_init_def SchemaURL_def
      ServiceNameKey_String_def attribute_String_def Start_def Let_def
      OpentelemetrySpan_End_def span_End_def)

text \<open>
  C3, amended. Let \<open>initOpentelemetryTracer\<close> succeed. If \<open>enabled\<close> is true, the global
  tracer is the tracer \<open>component-main\<close> of the provider just built. If \<open>enabled\<close> is
  false, and the library's global provider is still its default (no provider had been
  installed before), the global tracer is set (not \<open>nil\<close>) to the library's default
  tracer: every \<open>Start\<close> returns a span, that span is inert, and neither \<open>Start\<close> nor
  \<open>End\<close> nor \<open>SetAttributes\<close> changes the pipeline, so nothing is ever handed over for
  export.
\<close>

theorem initOpentelemetryTracer_global:
  "initOpentelemetryTracer jaeger_New ots g = (None, g') \<Longrightarrow>
   (enabled ots \<longrightarrow>
      (\<exists>tp. initTracerProvider jaeger_New ots = Inr tp
         \<and> GlobalTracer g' = Some (Tracer (SdkProvider tp) ''component-main'')))
   \<and> (\<not> enabled ots \<and> otel_global g = DefaultProvider \<longrightarrow>
        GlobalTracer g' = Some (Tracer DefaultProvider ''component-main'')
        \<and> (\<forall>ts w ctx name opts. \<exists>ctx' sp.
              Start g' ts w ctx name opts = Returns ((ctx', OpentelemetrySpan sp), w)
              \<and> \<not> recording sp
              \<and> OpentelemetrySpan_End sp w = w
              \<and> (\<forall>kv. OpentelemetrySpan_SetAttributes sp kv w = w)))"
proof -
  assume ok: "initOpentelemetryTracer jaeger_New ots g = (None, g')"
  from initOpentelemetryTracer_success [OF ok] obtain tp where
    tp: "initTracerProvider jaeger_New ots = Inr tp" and
    gt: "GlobalTracer g' =
          Some (Tracer (if enabled ots then SdkProvider tp else otel_global g) ''component-main'')"
    by blast
  have on: "enabled ots \<longrightarrow>
      (\<exists>tp. initTracerProvider jaeger_New ots = Inr tp
         \<and> GlobalTracer g' = Some (Tracer (SdkProvider tp) ''component-main''))"
    using tp gt by simp
  have off: "\<not> enabled ots \<and> otel_global g = DefaultProvider \<longrightarrow>
        GlobalTracer g' = Some (Tracer DefaultProvider ''component-main'')
        \<and> (\<forall>ts w ctx name opts. \<exists>ctx' sp.
              Start g' ts w ctx name opts = Returns ((ctx', OpentelemetrySpan sp), w)
              \<and> \<not> recording sp
              \<and> OpentelemetrySpan_End sp w = w
              \<and> (\<forall>kv. OpentelemetrySpan_SetAttributes sp kv w = w))"
  proof
    assume h: "\<not> enabled ots \<and> otel_global g = DefaultProvider"
    with gt have d: "GlobalTracer g' = Some (Tracer DefaultProvider ''component-main'')"
      by simp
    have "\<exists>ctx' sp.
              Start g' ts w ctx name opts = Returns ((ctx', OpentelemetrySpan sp), w)
              \<and> \<not> recording sp
              \<and> OpentelemetrySpan_End sp w = w
              \<and> (\<forall>kv. OpentelemetrySpan_SetAttributes sp kv w = w)" for ts w ctx name opts
      using Start_default_tracer [OF d] nonRecordingSpan_inert by blast
    with d show "GlobalTracer g' = Some (Tracer DefaultProvider ''component-main'')
        \<and> (\<forall>ts w ctx name opts. \<exists>ctx' sp.
              Start g' ts w ctx name opts = Returns ((ctx', OpentelemetrySpan sp), w)
              \<and> \<not> recording sp
              \<and> OpentelemetrySpan_End sp w = w
              \<and> (\<forall>kv. OpentelemetrySpan_SetAttributes sp kv w = w))"
      by blast
  qed
  from on off show ?thesis by blast
qed

theorem initOpentelemetryTracer_global_witness:
  "GlobalTracer (snd (initOpentelemetryTracer (\<lambda>opt. Inr (JaegerExporter opt))
       \<lparr>enabled = True, address = ''http://collector:14268'', tracerProvider = None,
        Cfg = \<lparr>Raw = Map.empty\<rparr>\<rparr> package_init))
     = Some (Tracer (SdkProvider (NewTracerProvider
         [WithBatcher (JaegerExporter
            (WithCollectorEndpoint [WithEndpoint ''http://collector:14268''])),
          WithResource (NewWithAttributes ''https://opentelemetry.io/schemas/1.4.0''
            [\<lparr>Key = ''service.name'', Value = STRING ''grafana''\<rparr>,
             \<lparr>Key = ''environment'', Value = STRING ''production''\<rparr>])]))
         ''component-main'')
   \<and> GlobalTracer (snd (initOpentelemetryTracer (\<lambda>opt. Inr (JaegerExporter opt))
       \<lparr>enabled = False, address = [], tracerProvider = None,
        Cfg = \<lparr>Raw = Map.empty\<rparr>\<rparr> package_init))
     = Some (Tracer DefaultProvider ''component-main'')"
proof -
  let ?jn = "\<lambda>opt. Inr (JaegerExporter opt) :: error + Exporter"
  let ?on = "\<lparr>enabled = True, address = ''http://collector:14268'', tracerProvider = None,
        Cfg = \<lparr>Raw = Map.empty\<rparr>\<rparr>"
  let ?off = "\<lparr>enabled = False, address = [], tracerProvider = None,
        Cfg = \<lparr>Raw = Map.empty\<rparr>\<rparr>"
  have a: "initOpentelemetryTracer ?jn ?on package_init
             = (None, snd (initOpentelemetryTracer ?jn ?on package_init))"
    by (simp add: initOpentelemetryTracer_def initTracerProvider_def Let_def)
  have b: "initOpentelemetryTracer ?jn ?off package_init
             = (None, snd (initOpentelemetryTracer ?jn ?off package_init))"
    by (simp add: initOpentelemetryTracer_def initTracerProvider_def Let_def)
  show ?thesis
    using initOpentelemetryTracer_global [OF a] initOpentelemetryTracer_global [OF b]
    by (simp add: initTracerProvider_def package_init_def SchemaURL_def
        ServiceNameKey_String_def attribute_String_def)
qed

section \<open>Run\<close>

text \<open>
  C4. \<open>Run\<close> does nothing while the context is not cancelled: if it never is, \<open>Run\<close>
  never returns and makes no call. Once the context is cancelled, the provider's shutdown
  is called, once, on the service's provider with the context
  \<open>WithTimeout Background\<close> of 5 seconds (\<open>5000000000\<close> nanoseconds): a context made for
  this call from the background context, whatever the cancelled context was.
\<close>

theorem Run_waits_then_shuts_down:
  "(\<not> done ctx \<longrightarrow> Run done Shutdown ots ctx = (Blocks, []))
   \<and> (done ctx \<longrightarrow>
        shutdown_calls (snd (Run done Shutdown ots ctx)) =
          [(tracerProvider ots, WithTimeout Background 5000000000)])"
  by (auto simp add: Run_def Second_def Let_def split: outcome.splits option.splits)

theorem Run_waits_then_shuts_down_witness:
  "Run (\<lambda>c. c \<noteq> Background) (\<lambda>p c. Returns None)
      \<lparr>enabled = True, address = [], tracerProvider = Some (NewTracerProvider []),
       Cfg = \<lparr>Raw = Map.empty\<rparr>\<rparr> Background = (Blocks, [])
   \<and> shutdown_calls (snd (Run (\<lambda>c. c \<noteq> Background) (\<lambda>p c. Returns None)
      \<lparr>enabled = True, address = [], tracerProvider = Some (NewTracerProvider []),
       Cfg = \<lparr>Raw = Map.empty\<rparr>\<rparr> (WithCancel Background)))
     = [(Some (NewTracerProvider []), WithTimeout Background 5000000000)]"
  using Run_waits_then_shuts_down
      [of "\<lambda>c. c \<noteq> Background" Background "\<lambda>p c. Returns None"
          "\<lparr>enabled = True, address = [], tracerProvider = Some (NewTracerProvider []),
            Cfg = \<lparr>Raw = Map.empty\<rparr>\<rparr>"]
    Run_waits_then_shuts_down
      [of "\<lambda>c. c \<noteq> Background" "WithCancel Background" "\<lambda>p c. Returns None"
          "\<lparr>enabled = True, address = [], tracerProvider = Some (NewTracerProvider []),
            Cfg = \<lparr>Raw = Map.empty\<rparr>\<rparr>"]
  by simp

text \<open>
  C5. Once the context is cancelled, \<open>Run\<close> returns an error exactly when the provider's
  shutdown returns one (a failure, or the deadline passing), and that error; it returns
  \<open>nil\<close> exactly when the shutdown returns \<open>nil\<close>; the shutdown is called exactly once;
  and \<open>Run\<close> returns whenever the shutdown returns, with an error or without.
\<close>

theorem Run_result:
  "done ctx \<Longrightarrow>
   (\<forall>err. fst (Run done Shutdown ots ctx) = Returns (Some err)
        \<longleftrightarrow> Shutdown (tracerProvider ots) (WithTimeout Background (Second * 5)) = Returns (Some err))
   \<and> (fst (Run done Shutdown ots ctx) = Returns None
        \<longleftrightarrow> Shutdown (tracerProvider ots) (WithTimeout Background (Second * 5)) = Returns None)
   \<and> length (shutdown_calls (snd (Run done Shutdown ots ctx))) = 1
   \<and> ((\<exists>r. Shutdown (tracerProvider ots) (WithTimeout Background (Second * 5)) = Returns r)
        \<longrightarrow> (\<exists>r. fst (Run done Shutdown ots ctx) = Returns r))"
  by (auto simp add: Run_def Let_def split: outcome.splits option.splits)

theorem Run_result_witness:
  "fst (Run (\<lambda>c. c \<noteq> Background)
          (\<lambda>p c. Returns (Some (Error ''context deadline exceeded'')))
          \<lparr>enabled = True, address = [], tracerProvider = Some (NewTracerProvider []),
           Cfg = \<lparr>Raw = Map.empty\<rparr>\<rparr> (WithCancel Background))
     = Returns (Some (Error ''context deadline exceeded''))
   \<and> fst (Run (\<lambda>c. c \<noteq> Background) (\<lambda>p c. Returns None)
          \<lparr>enabled = True, address = [], tracerProvider = Some (NewTracerProvider []),
           Cfg = \<lparr>Raw = Map.empty\<rparr>\<rparr> (WithCancel Background))
     = Returns None"
proof -
  have d: "(\<lambda>c. c \<noteq> Background) (WithCancel Background)" by simp
  show ?thesis
    using Run_result [of "\<lambda>c. c \<noteq> Background" "WithCancel Background"
        "\<lambda>p c. Returns (Some (Error ''context deadline exceeded''))", OF d]
      Run_result [of "\<lambda>c. c \<noteq> Background" "WithCancel Background"
        "\<lambda>p c. Returns None", OF d]
    by simp
qed

section \<open>Start\<close>

lemma tracer_Start_carries_span:
  "tracer_Start t w ctx name opts = ((ctx', sp), w') \<Longrightarrow> ctx' = ContextWithSpan ctx sp"
  by (cases "(t, w, ctx, name, opts)" rule: tracer_Start.cases) (auto simp add: Let_def)

text \<open>
  C6, as stated, fails: the package starts with \<open>GlobalTracer\<close> unset, and \<open>Start\<close> then
  panics instead of returning a span. It still does after an initialisation that failed
  because the exporter could not be built.
\<close>

theorem Start_before_init_counterexample:
  "Start package_init
      \<lparr>enabled = False, address = [], tracerProvider = None, Cfg = \<lparr>Raw = Map.empty\<rparr>\<rparr>
      \<lparr>next_id = 1, ended = [], attributes = []\<rparr> Background ''op'' [] = Panics
   \<and> initOpentelemetryTracer (\<lambda>opt. Inl (Error ''no exporter''))
        \<lparr>enabled = True, address = ''::'', tracerProvider = None, Cfg = \<lparr>Raw = Map.empty\<rparr>\<rparr>
        package_init
     = (Some (Error ''no exporter''), package_init)
   \<and> Start (snd (initOpentelemetryTracer (\<lambda>opt. Inl (Error ''no exporter''))
        \<lparr>enabled = True, address = ''::'', tracerProvider = None, Cfg = \<lparr>Raw = Map.empty\<rparr>\<rparr>
        package_init))
      \<lparr>enabled = True, address = ''::'', tracerProvider = None, Cfg = \<lparr>Raw = Map.empty\<rparr>\<rparr>
      \<lparr>next_id = 1, ended = [], attributes = []\<rparr> Background ''op'' [] = Panics"
  by (simp add: Start_def package_init_def initOpentelemetryTracer_def initTracerProvider_def)

text \<open>
  C6, amended. Once the global tracer is set, the modern \<open>Start\<close> returns, for every
  context, name and options: a context that extends the given one with the new span, and
  that span wrapped as a \<open>Span\<close>, whether the backend is enabled or not. The legacy
  \<open>Start\<close> always returns, likewise. (\<open>End\<close> and \<open>SetAttributes\<close> of either wrapper have
  no error result and are defined on every span.)
\<close>

theorem Start_after_init:
  "(GlobalTracer g \<noteq> None \<longrightarrow>
      (\<exists>sp w'. Start g ts w ctx name opts =
                  Returns ((ContextWithSpan ctx sp, OpentelemetrySpan sp), w')))
   \<and> (\<exists>sp lw'. TracingService_Start lw ctx name opts =
                  Returns ((ot_ContextWithSpan ctx sp, OpentracingSpan sp), lw'))"
proof -
  have modern: "\<exists>sp w'. Start g ts w ctx name opts =
                  Returns ((ContextWithSpan ctx sp, OpentelemetrySpan sp), w')"
    if "GlobalTracer g = Some t" for t
  proof -
    obtain ctx' sp w' where r: "tracer_Start t w ctx name [] = ((ctx', sp), w')"
      by (metis prod.exhaust)
    from tracer_Start_carries_span [OF r] r that show ?thesis
      by (simp add: Start_def)
  qed
  have legacy: "\<exists>sp lw'. TracingService_Start lw ctx name opts =
                  Returns ((ot_ContextWithSpan ctx sp, OpentracingSpan sp), lw')"
    by (simp add: TracingService_Start_def StartSpanFromContext_def Let_def)
  from modern legacy show ?thesis by blast
qed

theorem Start_after_init_witness:
  "Start \<lparr>GlobalTracer = Some (Tracer DefaultProvider ''component-main''),
          otel_global = DefaultProvider\<rparr>
      \<lparr>enabled = False, address = [], tracerProvider = None, Cfg = \<lparr>Raw = Map.empty\<rparr>\<rparr>
      \<lparr>next_id = 1, ended = [], attributes = []\<rparr> Background ''op'' []
   = Returns ((ContextWithSpan Background
                 \<lparr>span_name = [], span_id = 0, span_parent = None, recording = False\<rparr>,
               OpentelemetrySpan
                 \<lparr>span_name = [], span_id = 0, span_parent = None, recording = False\<rparr>),
              \<lparr>next_id = 1, ended = [], attributes = []\<rparr>)"
  using Start_after_init
    [of "\<lparr>GlobalTracer = Some (Tracer DefaultProvider ''component-main''),
          otel_global = DefaultProvider\<rparr>"
        "\<lparr>enabled = False, address = [], tracerProvider = None, Cfg = \<lparr>Raw = Map.empty\<rparr>\<rparr>"
        "\<lparr>next_id = 1, ended = [], attributes = []\<rparr>" Background "''op''" "[]"]
  by (simp add: Start_def nonRecordingSpan_def Let_def)

text \<open>
  C8, as stated, fails. The context below carries the active span 7. Before
  initialisation \<open>Start\<close> panics; after an initialisation with \<open>enabled\<close> false it returns
  an inert span, which records no parent.
\<close>

theorem Start_no_parent_counterexample:
  "Start package_init
      \<lparr>enabled = False, address = [], tracerProvider = None, Cfg = \<lparr>Raw = Map.empty\<rparr>\<rparr>
      \<lparr>next_id = 8, ended = [], attributes = []\<rparr>
      (ContextWithSpan Background
         \<lparr>span_name = ''parent'', span_id = 7, span_parent = None, recording = True\<rparr>)
      ''child'' [] = Panics
   \<and> Start (snd (initOpentelemetryTracer (\<lambda>opt. Inr (JaegerExporter opt))
               \<lparr>enabled = False, address = [], tracerProvider = None,
                Cfg = \<lparr>Raw = Map.empty\<rparr>\<rparr> package_init))
      \<lparr>enabled = False, address = [], tracerProvider = None, Cfg = \<lparr>Raw = Map.empty\<rparr>\<rparr>
      \<lparr>next_id = 8, ended = [], attributes = []\<rparr>
      (ContextWithSpan Background
         \<lparr>span_name = ''parent'', span_id = 7, span_parent = None, recording = True\<rparr>)
      ''child'' []
     = Returns
        ((ContextWithSpan
            (ContextWithSpan Background
               \<lparr>span_name = ''parent'', span_id = 7, span_parent = None, recording = True\<rparr>)
            \<lparr>span_name = [], span_id = 7, span_parent = None, recording = False\<rparr>,
          OpentelemetrySpan
            \<lparr>span_name = [], span_id = 7, span_parent = None, recording = False\<rparr>),
         \<lparr>next_id = 8, ended = [], attributes = []\<rparr>)"
  by (simp add: Start_def package_init_def initOpentelemetryTracer_def initTracerProvider_def
      GetTracerProvider_def provider_Tracer_def nonRecordingSpan_def Let_def)

text \<open>
  C8, amended. When the global tracer comes from an installed SDK provider, the modern
  \<open>Start\<close> returns a span with a fresh identity whose recorded parent is the identity of
  the context's active span, a root span when the context has none, and the returned
  context carries the new span as its active span. The legacy \<open>Start\<close> does the same for
  legacy spans when a legacy tracer is registered.
\<close>

theorem Start_child_of_active_span:
  "(GlobalTracer g = Some (Tracer (SdkProvider tp) nm) \<longrightarrow>
      (\<exists>ctx' sp w'.
          Start g ts w ctx name opts = Returns ((ctx', OpentelemetrySpan sp), w')
          \<and> span_id sp = next_id w
          \<and> (\<forall>S. SpanFromContext ctx = Some S \<longrightarrow> span_parent sp = Some (span_id S))
          \<and> (SpanFromContext ctx = None \<longrightarrow> span_parent sp = None)
          \<and> SpanFromContext ctx' = Some sp))
   \<and> (ot_registered lw \<longrightarrow>
      (\<exists>ctx' sp lw'.
          TracingService_Start lw ctx name opts = Returns ((ctx', OpentracingSpan sp), lw')
          \<and> ot_id sp = ot_next_id lw
          \<and> (\<forall>S. ot_SpanFromContext ctx = Some S \<longrightarrow> ot_parent sp = Some (ot_id S))
          \<and> (ot_SpanFromContext ctx = None \<longrightarrow> ot_parent sp = None)
          \<and> ot_SpanFromContext ctx' = Some sp))"
  by (simp add: Start_def TracingService_Start_def StartSpanFromContext_def Let_def)

theorem Start_child_of_active_span_witness:
  "Start \<lparr>GlobalTracer = Some (Tracer (SdkProvider (NewTracerProvider [])) ''component-main''),
          otel_global = SdkProvider (NewTracerProvider [])\<rparr>
      \<lparr>enabled = True, address = [], tracerProvider = None, Cfg = \<lparr>Raw = Map.empty\<rparr>\<rparr>
      \<lparr>next_id = 8, ended = [], attributes = []\<rparr>
      (ContextWithSpan Background
         \<lparr>span_name = ''parent'', span_id = 7, span_parent = None, recording = True\<rparr>)
      ''child'' []
     = Returns
        ((ContextWithSpan
            (ContextWithSpan Background
               \<lparr>span_name = ''parent'', span_id = 7, span_parent = None, recording = True\<rparr>)
            \<lparr>span_name = ''child'', span_id = 8, span_parent = Some 7, recording = True\<rparr>,
          OpentelemetrySpan
            \<lparr>span_name = ''child'', span_id = 8, span_parent = Some 7, recording = True\<rparr>),
         \<lparr>next_id = 9, ended = [], attributes = []\<rparr>)
   \<and> TracingService_Start \<lparr>ot_registered = True, ot_next_id = 3\<rparr>
        (ContextWithSpan Background
           \<lparr>span_name = ''parent'', span_id = 7, span_parent = None, recording = True\<rparr>)
        ''child'' []
     = Returns
        ((ot_ContextWithSpan
            (ContextWithSpan Background
               \<lparr>span_name = ''parent'', span_id = 7, span_parent = None, recording = True\<rparr>)
            \<lparr>ot_operation = ''child'', ot_id = 3, ot_parent = None, ot_tags = [],
             ot_finished = 0\<rparr>,
          OpentracingSpan
            \<lparr>ot_operation = ''child'', ot_id = 3, ot_parent = None, ot_tags = [],
             ot_finished = 0\<rparr>),
         \<lparr>ot_registered = True, ot_next_id = 4\<rparr>)"
  using Start_child_of_active_span
    [of "\<lparr>GlobalTracer = Some (Tracer (SdkProvider (NewTracerProvider [])) ''component-main''),
          otel_global = SdkProvider (NewTracerProvider [])\<rparr>"
        "NewTracerProvider []" "''component-main''"
        "\<lparr>enabled = True, address = [], tracerProvider = None, Cfg = \<lparr>Raw = Map.empty\<rparr>\<rparr>"
        "\<lparr>next_id = 8, ended = [], attributes = []\<rparr>"
        "ContextWithSpan Background
         \<lparr>span_name = ''parent'', span_id = 7, span_parent = None, recording = True\<rparr>"
        "''child''" "[]" "\<lparr>ot_registered = True, ot_next_id = 3\<rparr>"]
  by (simp add: Start_def TracingService_Start_def StartSpanFromContext_def Let_def)

lemma tracer_Start_WithNewRoot:
  "snd (fst (tracer_Start (Tracer (SdkProvider tp) nm) w (ContextWithSpan c S) name [WithNewRoot]))
     = \<lparr>span_name = name, span_id = next_id w, span_parent = None, recording = True\<rparr>"
  "snd (fst (tracer_Start (Tracer (SdkProvider tp) nm) w (ContextWithSpan c S) name []))
     = \<lparr>span_name = name, span_id = next_id w, span_parent = Some (span_id S),
        recording = True\<rparr>"
  by (simp_all add: Let_def)

text \<open>
  C9. The modern \<open>Start\<close> does not look at its options: whatever options the caller
  gives, the result is that of \<open>Start\<close> with none. (The library tracer itself does
  honour options, see \<open>tracer_Start_WithNewRoot\<close>; it is called with none.)
\<close>

theorem Start_ignores_options:
  "Start g ts w ctx name opts = Start g ts w ctx name []"
  by (simp add: Start_def)

text \<open>
  C10. The package variable \<open>GlobalTracer\<close> starts out \<open>nil\<close>, and in any process state
  where it is \<open>nil\<close> the modern \<open>Start\<close> panics, for every context, name and options.
\<close>

theorem Start_before_init_panics:
  "GlobalTracer package_init = None
   \<and> Start (g\<lparr>GlobalTracer := None\<rparr>) ts w ctx name opts = Panics"
  by (simp add: Start_def package_init_def)

end
